theory Spec2Isabelle
  imports
    Main
    "HOL-Library.Multiset"
    "HOL-Library.Char_ord"
    "HOL-Library.List_Lexorder"
    "HOL-Library.AList"
begin

section \<open>Data model\<close>

subsection \<open>Changes and options (package core, types)\<close>

text \<open>
  \<open>ChangeType\<close> is a Go string type with the three constants \<open>"BREAKING"\<close>,
  \<open>"DANGEROUS"\<close> and \<open>"NON_BREAKING"\<close>; the diff only ever produces these three.
  \<open>Meta\<close> is a \<open>map[string]interface{}\<close> whose values are all strings in
  \<open>diff.go\<close>; it is kept as an association list in the order of the composite literal,
  and a \<open>nil\<close> map is the empty list.
\<close>

datatype ChangeType = ChangeTypeBreaking | ChangeTypeDangerous | ChangeTypeNonBreaking

record Change =
  Type :: ChangeType
  Message :: string
  Path :: string
  Criticality :: string
  Meta :: "(string \<times> string) list"

record DiffOptions =
  IgnoreDescriptions :: bool
  IgnoreDirectives :: bool
  CustomRules :: "string list"

subsection \<open>The type graph (the part of graphql-go that the diff reads)\<close>

text \<open>
  A \<open>graphql.Type\<close> is an interface value: a chain of \<open>List\<close> and \<open>NonNull\<close> wrappers
  around a pointer to a named type. The pointer is modelled by the implementing Go type
  (\<open>NamedKind\<close>, what a type switch sees without following the pointer) and the address
  it points to. What the pointer points to is in the memory below, so two pointers to the
  same address have the same target by construction, and two named types of different
  content live at different addresses. The wrappers hold nothing but the wrapped type and
  are kept as values.
\<close>

type_synonym addr = nat

datatype NamedKind = KObject | KInterface | KUnion | KEnum | KInputObject | KScalar

datatype gql_ref = Named NamedKind addr | List gql_ref | NonNull gql_ref

record Argument =
  arg_Name :: string
  arg_Type :: gql_ref
  arg_DefaultValue :: "string option"
  arg_Description :: string

record FieldDefinition =
  fd_Name :: string
  fd_Description :: string
  fd_Type :: gql_ref
  fd_Args :: "Argument list"
  fd_DeprecationReason :: string

text \<open>
  A Go map is an association list with pairwise distinct keys; the order of the list is
  the order in which a \<open>range\<close> loop of the run visits the map. Lookup \<open>m[k]\<close> is
  \<open>map_of m k\<close>. Go fixes no iteration order, and two loops over one map may visit it
  differently; the model takes one order per map. The results below that hold for all
  schemas are about the elements of the result, or about results of at most one element,
  and so depend on no order.
\<close>

type_synonym FieldDefinitionMap = "(string \<times> FieldDefinition) list"

text \<open>The interfaces of an object and the members of a union are pointers, kept as
  addresses of interfaces and of objects.\<close>

record ObjectT =
  obj_Name :: string
  obj_Description :: string
  obj_Fields :: FieldDefinitionMap
  obj_Interfaces :: "addr list"

record InterfaceT =
  if_Name :: string
  if_Description :: string
  if_Fields :: FieldDefinitionMap

record UnionT =
  un_Name :: string
  un_Description :: string
  un_Types :: "addr list"

record EnumValueDefinition =
  ev_Name :: string
  ev_Description :: string
  ev_DeprecationReason :: string

record EnumT =
  en_Name :: string
  en_Description :: string
  en_Values :: "EnumValueDefinition list"

record InputObjectField =
  iof_Name :: string
  iof_Type :: gql_ref
  iof_DefaultValue :: "string option"
  iof_Description :: string

record InputObjectT =
  io_Name :: string
  io_Description :: string
  io_Fields :: "(string \<times> InputObjectField) list"

record ScalarT =
  sc_Name :: string
  sc_Description :: string

text \<open>
  The memory that holds the named types of both schemas: one store per implementing Go
  type, so that a pointer of a kind always finds a value of that kind. \<open>holdsFunc k a\<close>
  says that the value of kind \<open>k\<close> at address \<open>a\<close> holds a function that is not nil (a
  resolver of one of its fields, a serializer, a type resolver, a thunk for its fields);
  the other members that graphql-go keeps in these values repeat the ones modelled.
  \<open>allocated\<close> bounds the addresses in use: every pointer is to an address below it.
\<close>

record memory =
  objects :: "addr \<Rightarrow> ObjectT"
  interfaces :: "addr \<Rightarrow> InterfaceT"
  unions :: "addr \<Rightarrow> UnionT"
  enums :: "addr \<Rightarrow> EnumT"
  inputObjects :: "addr \<Rightarrow> InputObjectT"
  scalars :: "addr \<Rightarrow> ScalarT"
  holdsFunc :: "NamedKind \<Rightarrow> addr \<Rightarrow> bool"
  allocated :: nat

record Directive =
  dir_Name :: string
  dir_Description :: string
  dir_Locations :: "string list"
  dir_Args :: "Argument list"

text \<open>
  \<open>graphql.Schema\<close>: the type map (\<open>map[string]Type\<close>), the directives and the three
  root operation types (a pointer to the root object, \<open>None\<close> for nil).
\<close>

record graphql_Schema =
  TypeMap :: "(string \<times> gql_ref) list"
  Directives :: "Directive list"
  QueryType :: "addr option"
  MutationType :: "addr option"
  SubscriptionType :: "addr option"

text \<open>\<open>core.Schema\<close> wraps a pointer to the \<open>graphql.Schema\<close>, which may be nil.\<close>

record core_Schema =
  Schema :: "graphql_Schema option"
  SDL :: string
  Hash :: string
  Source :: string
  Timestamp :: int

section \<open>The diff (pkg/core/diff.go)\<close>

subsection \<open>Helper functions\<close>

text \<open>
  The \<open>default\<close> branches of \<open>getTypeKind\<close> (\<open>"UNKNOWN"\<close>) and of \<open>getTypeString\<close>
  (\<open>"Unknown"\<close>) are taken for a nil type only; the type maps and fields of a
  \<open>graphql.Schema\<close> hold none, and the datatype has no such value. \<open>getTypeString\<close>
  reads the name through the pointer.
\<close>

fun getTypeKind :: "gql_ref \<Rightarrow> string" where
  "getTypeKind (Named KObject _) = ''OBJECT''"
| "getTypeKind (Named KInterface _) = ''INTERFACE''"
| "getTypeKind (Named KUnion _) = ''UNION''"
| "getTypeKind (Named KEnum _) = ''ENUM''"
| "getTypeKind (Named KInputObject _) = ''INPUT_OBJECT''"
| "getTypeKind (Named KScalar _) = ''SCALAR''"
| "getTypeKind (List _) = ''LIST''"
| "getTypeKind (NonNull _) = ''NON_NULL''"

fun getTypeString :: "memory \<Rightarrow> gql_ref \<Rightarrow> string" where
  "getTypeString m (NonNull t) = getTypeString m t @ ''!''"
| "getTypeString m (List t) = ''['' @ getTypeString m t @ '']''"
| "getTypeString m (Named KObject a) = obj_Name (objects m a)"
| "getTypeString m (Named KScalar a) = sc_Name (scalars m a)"
| "getTypeString m (Named KEnum a) = en_Name (enums m a)"
| "getTypeString m (Named KInterface a) = if_Name (interfaces m a)"
| "getTypeString m (Named KUnion a) = un_Name (unions m a)"
| "getTypeString m (Named KInputObject a) = io_Name (inputObjects m a)"

subsection \<open>reflect.DeepEqual on types\<close>

text \<open>
  \<open>areTypesEqual\<close> is \<open>reflect.DeepEqual\<close> on two \<open>graphql.Type\<close> values. By its
  documentation, values of different Go types are never deeply equal; pointers are deeply
  equal if they are equal or point to deeply equal values; structs, slices and maps are
  compared member by member, element by element and key by key; a function is deeply equal
  to nothing but another nil function; and a pair of pointers met again while it is being
  compared counts as equal, which makes the comparison end on cyclic values.

  \<open>refEq R\<close> compares two type references, given the relation \<open>R\<close> that compares the
  values behind two different pointers of one kind.
\<close>

fun refEq :: "(NamedKind \<Rightarrow> addr \<Rightarrow> addr \<Rightarrow> bool) \<Rightarrow> gql_ref \<Rightarrow> gql_ref \<Rightarrow> bool" where
  "refEq R (Named k a) (Named k' a') = (k = k' \<and> (a = a' \<or> R k a a'))"
| "refEq R (List t) (List t') = refEq R t t'"
| "refEq R (NonNull t) (NonNull t') = refEq R t t'"
| "refEq R _ _ = False"

definition argEq :: "(NamedKind \<Rightarrow> addr \<Rightarrow> addr \<Rightarrow> bool) \<Rightarrow> Argument \<Rightarrow> Argument \<Rightarrow> bool" where
  "argEq R x y =
    (arg_Name x = arg_Name y \<and> refEq R (arg_Type x) (arg_Type y)
     \<and> arg_DefaultValue x = arg_DefaultValue y \<and> arg_Description x = arg_Description y)"

definition fieldEq ::
  "(NamedKind \<Rightarrow> addr \<Rightarrow> addr \<Rightarrow> bool) \<Rightarrow> FieldDefinition \<Rightarrow> FieldDefinition \<Rightarrow> bool" where
  "fieldEq R x y =
    (fd_Name x = fd_Name y \<and> fd_Description x = fd_Description y
     \<and> refEq R (fd_Type x) (fd_Type y)
     \<and> list_all2 (argEq R) (fd_Args x) (fd_Args y)
     \<and> fd_DeprecationReason x = fd_DeprecationReason y)"

definition inputFieldEq ::
  "(NamedKind \<Rightarrow> addr \<Rightarrow> addr \<Rightarrow> bool) \<Rightarrow> InputObjectField \<Rightarrow> InputObjectField \<Rightarrow> bool" where
  "inputFieldEq R x y =
    (iof_Name x = iof_Name y \<and> refEq R (iof_Type x) (iof_Type y)
     \<and> iof_DefaultValue x = iof_DefaultValue y \<and> iof_Description x = iof_Description y)"

text \<open>Two Go maps are deeply equal if they have the same keys and deeply equal values
  under each key.\<close>

definition mapEq :: "('v \<Rightarrow> 'v \<Rightarrow> bool) \<Rightarrow> (string \<times> 'v) list \<Rightarrow> (string \<times> 'v) list \<Rightarrow> bool" where
  "mapEq E xs ys =
    (list_all (\<lambda>(k, x). case map_of ys k of Some y \<Rightarrow> E x y | None \<Rightarrow> False) xs
     \<and> list_all (\<lambda>(k, y). map_of xs k \<noteq> None) ys)"

text \<open>
  \<open>valueEq m R k a b\<close> compares the values of kind \<open>k\<close> at the addresses \<open>a\<close> and \<open>b\<close>
  member by member, with \<open>R\<close> for the named types that their members point to.
\<close>

fun valueEq ::
  "memory \<Rightarrow> (NamedKind \<Rightarrow> addr \<Rightarrow> addr \<Rightarrow> bool) \<Rightarrow> NamedKind \<Rightarrow> addr \<Rightarrow> addr \<Rightarrow> bool" where
  "valueEq m R KObject a b =
     (obj_Name (objects m a) = obj_Name (objects m b)
      \<and> obj_Description (objects m a) = obj_Description (objects m b)
      \<and> mapEq (fieldEq R) (obj_Fields (objects m a)) (obj_Fields (objects m b))
      \<and> list_all2 (\<lambda>i j. i = j \<or> R KInterface i j)
           (obj_Interfaces (objects m a)) (obj_Interfaces (objects m b)))"
| "valueEq m R KInterface a b =
     (if_Name (interfaces m a) = if_Name (interfaces m b)
      \<and> if_Description (interfaces m a) = if_Description (interfaces m b)
      \<and> mapEq (fieldEq R) (if_Fields (interfaces m a)) (if_Fields (interfaces m b)))"
| "valueEq m R KUnion a b =
     (un_Name (unions m a) = un_Name (unions m b)
      \<and> un_Description (unions m a) = un_Description (unions m b)
      \<and> list_all2 (\<lambda>i j. i = j \<or> R KObject i j) (un_Types (unions m a)) (un_Types (unions m b)))"
| "valueEq m R KEnum a b = (enums m a = enums m b)"
| "valueEq m R KInputObject a b =
     (io_Name (inputObjects m a) = io_Name (inputObjects m b)
      \<and> io_Description (inputObjects m a) = io_Description (inputObjects m b)
      \<and> mapEq (inputFieldEq R) (io_Fields (inputObjects m a)) (io_Fields (inputObjects m b)))"
| "valueEq m R KScalar a b = (scalars m a = scalars m b)"

text \<open>
  \<open>deepEqualTo m n k a b\<close>: the values of kind \<open>k\<close> at two different addresses \<open>a\<close> and
  \<open>b\<close> agree when followed through at most \<open>n\<close> pointers to named types. A value that
  holds a function is deeply equal to no value at another address. Deep equality, with
  its rule for pairs met again, is the largest relation that relates only values whose
  members are related; comparing to depth \<open>n\<close> gives a relation that shrinks with \<open>n\<close>
  and is that largest relation as soon as \<open>n\<close> reaches the number of pairs of values.
  There are six kinds and at most \<open>allocated\<close> addresses, hence \<open>depth\<close>.
\<close>

fun deepEqualTo :: "memory \<Rightarrow> nat \<Rightarrow> NamedKind \<Rightarrow> addr \<Rightarrow> addr \<Rightarrow> bool" where
  "deepEqualTo m 0 k a b = True"
| "deepEqualTo m (Suc n) k a b =
     (\<not> holdsFunc m k a \<and> \<not> holdsFunc m k b \<and> valueEq m (deepEqualTo m n) k a b)"

definition depth :: "memory \<Rightarrow> nat" where
  "depth m = Suc (6 * allocated m * allocated m)"

definition areTypesEqual :: "memory \<Rightarrow> gql_ref \<Rightarrow> gql_ref \<Rightarrow> bool" where
  "areTypesEqual m oldType newType = refEq (deepEqualTo m (depth m)) oldType newType"

fun isTypeWidening :: "memory \<Rightarrow> gql_ref \<Rightarrow> gql_ref \<Rightarrow> bool" where
  "isTypeWidening m (NonNull oldOf) (NonNull newOf) = isTypeWidening m oldOf newOf"
| "isTypeWidening m (NonNull oldOf) newType = areTypesEqual m oldOf newType"
| "isTypeWidening m oldType newType = False"

fun isRequiredType :: "gql_ref \<Rightarrow> bool" where
  "isRequiredType (NonNull _) = True"
| "isRequiredType _ = False"

subsection \<open>Placeholder comparisons\<close>

definition compareInterfaceType ::
  "string \<Rightarrow> InterfaceT \<Rightarrow> InterfaceT \<Rightarrow> DiffOptions \<Rightarrow> Change list" where
  "compareInterfaceType typeName oldType newType options = []"

definition compareUnionType ::
  "string \<Rightarrow> UnionT \<Rightarrow> UnionT \<Rightarrow> DiffOptions \<Rightarrow> Change list" where
  "compareUnionType typeName oldType newType options = []"

definition compareEnumType ::
  "string \<Rightarrow> EnumT \<Rightarrow> EnumT \<Rightarrow> DiffOptions \<Rightarrow> Change list" where
  "compareEnumType typeName oldType newType options = []"

definition compareInputObjectType ::
  "string \<Rightarrow> InputObjectT \<Rightarrow> InputObjectT \<Rightarrow> DiffOptions \<Rightarrow> Change list" where
  "compareInputObjectType typeName oldType newType options = []"

definition compareScalarType ::
  "string \<Rightarrow> ScalarT \<Rightarrow> ScalarT \<Rightarrow> DiffOptions \<Rightarrow> Change list" where
  "compareScalarType typeName oldType newType options = []"

definition compareDirectives ::
  "graphql_Schema \<Rightarrow> graphql_Schema \<Rightarrow> DiffOptions \<Rightarrow> Change list" where
  "compareDirectives oldSchema newSchema options = []"

definition compareSchemaDefinition ::
  "graphql_Schema \<Rightarrow> graphql_Schema \<Rightarrow> DiffOptions \<Rightarrow> Change list" where
  "compareSchemaDefinition oldSchema newSchema options = []"

definition compareImplementedInterfaces ::
  "string \<Rightarrow> addr list \<Rightarrow> addr list \<Rightarrow> DiffOptions \<Rightarrow> Change list" where
  "compareImplementedInterfaces typeName oldInterfaces newInterfaces options = []"

subsection \<open>Arguments and fields\<close>

text \<open>
  \<open>argMap\<close> is the loop \<open>for _, arg := range args { m[arg.Name()] = arg }\<close>: a later
  argument of the same name overwrites the earlier one.
\<close>

definition argMap :: "Argument list \<Rightarrow> (string \<times> Argument) list" where
  "argMap args = foldl (\<lambda>m arg. AList.update (arg_Name arg) arg m) [] args"

definition argPath :: "string \<Rightarrow> string \<Rightarrow> string \<Rightarrow> string" where
  "argPath typeName fieldName argName = typeName @ ''.'' @ fieldName @ ''('' @ argName @ '':)''"

definition fieldPath :: "string \<Rightarrow> string \<Rightarrow> string" where
  "fieldPath typeName fieldName = typeName @ ''.'' @ fieldName"

definition compareFieldArguments ::
  "memory \<Rightarrow> string \<Rightarrow> string \<Rightarrow> Argument list \<Rightarrow> Argument list \<Rightarrow> DiffOptions
    \<Rightarrow> Change list" where
  "compareFieldArguments m typeName fieldName oldArgs newArgs options =
    (let oldArgMap = argMap oldArgs;
         newArgMap = argMap newArgs
     in
       concat (map (\<lambda>(argName, oldArg).
         if map_of newArgMap argName = None then
           [\<lparr>Type = ChangeTypeBreaking,
             Message = ''Argument '' @ CHR 0x27 # argName @ CHR 0x27 # '' was removed from field ''
                       @ CHR 0x27 # typeName @ ''.'' @ fieldName @ [CHR 0x27],
             Path = argPath typeName fieldName argName,
             Criticality = ''HIGH'',
             Meta = [(''typeName'', typeName), (''fieldName'', fieldName), (''argName'', argName)]\<rparr>]
         else []) oldArgMap)
       @ concat (map (\<lambda>(argName, newArg).
         if map_of oldArgMap argName = None then
           [\<lparr>Type = (if isRequiredType (arg_Type newArg) then ChangeTypeBreaking
                     else ChangeTypeNonBreaking),
             Message = ''Argument '' @ CHR 0x27 # argName @ CHR 0x27 # '' was added to field ''
                       @ CHR 0x27 # typeName @ ''.'' @ fieldName @ [CHR 0x27],
             Path = argPath typeName fieldName argName,
             Criticality = (if isRequiredType (arg_Type newArg) then ''HIGH'' else ''LOW''),
             Meta = [(''typeName'', typeName), (''fieldName'', fieldName), (''argName'', argName),
                     (''argType'', getTypeString m (arg_Type newArg))]\<rparr>]
         else []) newArgMap))"

definition compareField ::
  "memory \<Rightarrow> string \<Rightarrow> string \<Rightarrow> FieldDefinition \<Rightarrow> FieldDefinition \<Rightarrow> DiffOptions
    \<Rightarrow> Change list" where
  "compareField m typeName fieldName oldField newField options =
    (if \<not> areTypesEqual m (fd_Type oldField) (fd_Type newField) then
       [\<lparr>Type = (if isTypeWidening m (fd_Type oldField) (fd_Type newField)
                 then ChangeTypeDangerous else ChangeTypeBreaking),
         Message = ''Field '' @ CHR 0x27 # typeName @ ''.'' @ fieldName @ CHR 0x27 #
                   '' changed type from '' @ getTypeString m (fd_Type oldField) @ '' to ''
                   @ getTypeString m (fd_Type newField),
         Path = fieldPath typeName fieldName,
         Criticality = (if isTypeWidening m (fd_Type oldField) (fd_Type newField)
                        then ''MEDIUM'' else ''HIGH''),
         Meta = [(''typeName'', typeName), (''fieldName'', fieldName),
                 (''oldType'', getTypeString m (fd_Type oldField)),
                 (''newType'', getTypeString m (fd_Type newField))]\<rparr>]
     else [])
    @ (if \<not> IgnoreDescriptions options \<and> fd_Description oldField \<noteq> fd_Description newField then
       [\<lparr>Type = ChangeTypeNonBreaking,
         Message = ''Field '' @ CHR 0x27 # typeName @ ''.'' @ fieldName @ CHR 0x27 #
                   '' description changed'',
         Path = fieldPath typeName fieldName,
         Criticality = ''LOW'',
         Meta = []\<rparr>]
     else [])
    @ compareFieldArguments m typeName fieldName (fd_Args oldField) (fd_Args newField) options"

definition compareFields ::
  "memory \<Rightarrow> string \<Rightarrow> FieldDefinitionMap \<Rightarrow> FieldDefinitionMap \<Rightarrow> DiffOptions
    \<Rightarrow> Change list" where
  "compareFields m typeName oldFields newFields options =
    concat (map (\<lambda>(fieldName, oldField).
      if map_of newFields fieldName = None then
        [\<lparr>Type = ChangeTypeBreaking,
          Message = ''Field '' @ CHR 0x27 # typeName @ ''.'' @ fieldName @ CHR 0x27 # '' was removed'',
          Path = fieldPath typeName fieldName,
          Criticality = ''HIGH'',
          Meta = [(''typeName'', typeName), (''fieldName'', fieldName)]\<rparr>]
      else []) oldFields)
    @ concat (map (\<lambda>(fieldName, newField).
      if map_of oldFields fieldName = None then
        [\<lparr>Type = ChangeTypeNonBreaking,
          Message = ''Field '' @ CHR 0x27 # typeName @ ''.'' @ fieldName @ CHR 0x27 # '' was added'',
          Path = fieldPath typeName fieldName,
          Criticality = ''LOW'',
          Meta = [(''typeName'', typeName), (''fieldName'', fieldName)]\<rparr>]
      else []) newFields)
    @ concat (map (\<lambda>(fieldName, oldField).
      case map_of newFields fieldName of
        Some newField \<Rightarrow> compareField m typeName fieldName oldField newField options
      | None \<Rightarrow> []) oldFields)"

subsection \<open>Types\<close>

definition compareObjectType ::
  "memory \<Rightarrow> string \<Rightarrow> ObjectT \<Rightarrow> ObjectT \<Rightarrow> DiffOptions \<Rightarrow> Change list" where
  "compareObjectType m typeName oldType newType options =
    (if \<not> IgnoreDescriptions options \<and> obj_Description oldType \<noteq> obj_Description newType then
       [\<lparr>Type = ChangeTypeNonBreaking,
         Message = ''Description for type '' @ CHR 0x27 # typeName @ CHR 0x27 # '' changed'',
         Path = typeName,
         Criticality = ''LOW'',
         Meta = []\<rparr>]
     else [])
    @ compareFields m typeName (obj_Fields oldType) (obj_Fields newType) options
    @ compareImplementedInterfaces typeName (obj_Interfaces oldType) (obj_Interfaces newType) options"

text \<open>
  The type switch of \<open>compareType\<close> looks at the Go type of the old value and asserts
  the same Go type for the new one; the comparison functions then read both values through
  their pointers.
\<close>

definition compareType ::
  "memory \<Rightarrow> string \<Rightarrow> gql_ref \<Rightarrow> gql_ref \<Rightarrow> DiffOptions \<Rightarrow> Change list" where
  "compareType m typeName oldType newType options =
    (if getTypeKind oldType \<noteq> getTypeKind newType then
       [\<lparr>Type = ChangeTypeBreaking,
         Message = ''Type '' @ CHR 0x27 # typeName @ CHR 0x27 # '' changed from ''
                   @ getTypeKind oldType @ '' to '' @ getTypeKind newType,
         Path = typeName,
         Criticality = ''HIGH'',
         Meta = [(''typeName'', typeName), (''oldKind'', getTypeKind oldType),
                 (''newKind'', getTypeKind newType)]\<rparr>]
     else
       (case (oldType, newType) of
          (Named KObject a, Named KObject b) \<Rightarrow>
            compareObjectType m typeName (objects m a) (objects m b) options
        | (Named KInterface a, Named KInterface b) \<Rightarrow>
            compareInterfaceType typeName (interfaces m a) (interfaces m b) options
        | (Named KUnion a, Named KUnion b) \<Rightarrow>
            compareUnionType typeName (unions m a) (unions m b) options
        | (Named KEnum a, Named KEnum b) \<Rightarrow>
            compareEnumType typeName (enums m a) (enums m b) options
        | (Named KInputObject a, Named KInputObject b) \<Rightarrow>
            compareInputObjectType typeName (inputObjects m a) (inputObjects m b) options
        | (Named KScalar a, Named KScalar b) \<Rightarrow>
            compareScalarType typeName (scalars m a) (scalars m b) options
        | _ \<Rightarrow> []))"

definition typeRemoved :: "string \<Rightarrow> gql_ref \<Rightarrow> Change" where
  "typeRemoved name oldType =
    \<lparr>Type = ChangeTypeBreaking,
     Message = ''Type '' @ CHR 0x27 # name @ CHR 0x27 # '' was removed'',
     Path = name,
     Criticality = ''HIGH'',
     Meta = [(''typeName'', name), (''typeKind'', getTypeKind oldType)]\<rparr>"

definition typeAdded :: "string \<Rightarrow> gql_ref \<Rightarrow> Change" where
  "typeAdded name newType =
    \<lparr>Type = ChangeTypeNonBreaking,
     Message = ''Type '' @ CHR 0x27 # name @ CHR 0x27 # '' was added'',
     Path = name,
     Criticality = ''LOW'',
     Meta = [(''typeName'', name), (''typeKind'', getTypeKind newType)]\<rparr>"

definition compareTypes ::
  "memory \<Rightarrow> graphql_Schema \<Rightarrow> graphql_Schema \<Rightarrow> DiffOptions \<Rightarrow> Change list" where
  "compareTypes m oldSchema newSchema options =
    (let oldTypes = TypeMap oldSchema;
         newTypes = TypeMap newSchema
     in
       concat (map (\<lambda>(name, oldType).
         if map_of newTypes name = None then [typeRemoved name oldType] else []) oldTypes)
       @ concat (map (\<lambda>(name, newType).
         if map_of oldTypes name = None then [typeAdded name newType] else []) newTypes)
       @ concat (map (\<lambda>(name, oldType).
         case map_of newTypes name of
           Some newType \<Rightarrow> compareType m name oldType newType options
         | None \<Rightarrow> []) oldTypes))"

subsection \<open>Ordering the result\<close>

text \<open>
  The comparison function handed to \<open>sort.Slice\<close>.
\<close>

definition changeLess :: "Change \<Rightarrow> Change \<Rightarrow> bool" where
  "changeLess ci cj =
    (if Type ci \<noteq> Type cj then Type ci = ChangeTypeBreaking else Path ci < Path cj)"

text \<open>
  \<open>sort.Slice\<close> belongs to the Go standard library. On a short slice (up to six
  elements in every Go release, up to twelve since Go 1.19) it runs exactly the insertion
  sort below: for each \<open>i\<close> from 1, exchange \<open>data[j]\<close> and \<open>data[j-1]\<close> downwards
  from \<open>j = i\<close> while \<open>less(j, j-1)\<close>. Longer slices are sorted by other exchanges of
  elements. The results below that speak of arbitrary schemas use only that the outcome
  has the same elements as the input.
\<close>

fun insertionStep :: "('a \<Rightarrow> 'a \<Rightarrow> bool) \<Rightarrow> 'a list \<Rightarrow> nat \<Rightarrow> 'a list" where
  "insertionStep lessFn data 0 = data"
| "insertionStep lessFn data (Suc j) =
     (if lessFn (data ! Suc j) (data ! j)
      then insertionStep lessFn (data[Suc j := data ! j, j := data ! Suc j]) j
      else data)"

definition sort_Slice :: "'a list \<Rightarrow> ('a \<Rightarrow> 'a \<Rightarrow> bool) \<Rightarrow> 'a list" where
  "sort_Slice data lessFn = foldl (insertionStep lessFn) data [1..<length data]"

subsection \<open>DiffSchemas\<close>

text \<open>
  Outcomes other than a list of changes: the error value that \<open>DiffSchemas\<close> returns, and
  the run-time panic of \<open>(*graphql.Schema).TypeMap\<close> on a nil receiver, which is reached
  when a non-nil \<open>core.Schema\<close> wraps a nil pointer. The first argument is the memory
  in which the types of both schemas live.
\<close>

datatype failure = Error string | NilPointerPanic

definition DiffSchemas ::
  "memory \<Rightarrow> core_Schema option \<Rightarrow> core_Schema option \<Rightarrow> DiffOptions option
    \<Rightarrow> failure + Change list" where
  "DiffSchemas m oldSchema newSchema options =
    (case (oldSchema, newSchema) of
       (Some old, Some new) \<Rightarrow>
         (let opts = (case options of
                        None \<Rightarrow> \<lparr>IgnoreDescriptions = False, IgnoreDirectives = False,
                                 CustomRules = []\<rparr>
                      | Some given \<Rightarrow> given)
          in case (Schema old, Schema new) of
               (Some og, Some ng) \<Rightarrow>
                 (let changes = compareTypes m og ng opts;
                      changes = changes @ (if \<not> IgnoreDirectives opts
                                           then compareDirectives og ng opts else []);
                      changes = changes @ compareSchemaDefinition og ng opts
                  in Inr (sort_Slice changes changeLess))
             | _ \<Rightarrow> Inl NilPointerPanic)
     | _ \<Rightarrow> Inl (Error ''both schemas must be provided''))"


section \<open>Auxiliary notions\<close>

text \<open>The options in force: \<open>if options == nil { options = &DiffOptions{} }\<close>.\<close>

definition optionsOrDefault :: "DiffOptions option \<Rightarrow> DiffOptions" where
  "optionsOrDefault options = (case options of
      None \<Rightarrow> \<lparr>IgnoreDescriptions = False, IgnoreDirectives = False, CustomRules = []\<rparr>
    | Some given \<Rightarrow> given)"

text \<open>
  An association list stands for a Go map only if its keys are pairwise distinct. The diff
  iterates over the type map and over the field maps of object types, so these are the
  maps whose keys \<open>uniqueKeys\<close> constrains.
\<close>

fun fieldsUnique :: "memory \<Rightarrow> gql_ref \<Rightarrow> bool" where
  "fieldsUnique m (Named KObject a) = distinct (map fst (obj_Fields (objects m a)))"
| "fieldsUnique m _ = True"

definition uniqueKeys :: "memory \<Rightarrow> graphql_Schema \<Rightarrow> bool" where
  "uniqueKeys m g =
    (distinct (map fst (TypeMap g)) \<and> list_all (\<lambda>(name, t). fieldsUnique m t) (TypeMap g))"



text \<open>
  The specification's notion of a dangling reference, in its own words: a field (of an
  object, interface or input object type of the schema) whose type reference names a type
  that is absent from the type map of the same schema.
\<close>

fun namedTypeOf :: "memory \<Rightarrow> gql_ref \<Rightarrow> string" where
  "namedTypeOf m (List t) = namedTypeOf m t"
| "namedTypeOf m (NonNull t) = namedTypeOf m t"
| "namedTypeOf m t = getTypeString m t"

fun fieldTypes :: "memory \<Rightarrow> gql_ref \<Rightarrow> gql_ref list" where
  "fieldTypes m (Named KObject a) = map (\<lambda>(n, fd). fd_Type fd) (obj_Fields (objects m a))"
| "fieldTypes m (Named KInterface a) = map (\<lambda>(n, fd). fd_Type fd) (if_Fields (interfaces m a))"
| "fieldTypes m (Named KInputObject a) =
     map (\<lambda>(n, fd). iof_Type fd) (io_Fields (inputObjects m a))"
| "fieldTypes m _ = []"

definition danglingReference :: "memory \<Rightarrow> graphql_Schema \<Rightarrow> bool" where
  "danglingReference m g =
    list_ex (\<lambda>(name, t).
        list_ex (\<lambda>r. map_of (TypeMap g) (namedTypeOf m r) = None) (fieldTypes m t))
      (TypeMap g)"

section \<open>Example schemas\<close>

text \<open>
  The examples share one memory. The three scalars are the library's own
  \<open>graphql.String\<close>, \<open>graphql.ID\<close> and \<open>graphql.Int\<close>, one value each, and as every
  scalar they hold a serializer function; the other types have no resolvers and hold no
  function.
\<close>

definition stringT :: gql_ref where "stringT = Named KScalar 0"
definition idT :: gql_ref where "idT = Named KScalar 1"
definition intT :: gql_ref where "intT = Named KScalar 2"

definition field :: "string \<Rightarrow> gql_ref \<Rightarrow> Argument list \<Rightarrow> string \<times> FieldDefinition" where
  "field n t as = (n, \<lparr>fd_Name = n, fd_Description = [], fd_Type = t, fd_Args = as,
                       fd_DeprecationReason = []\<rparr>)"

definition objectType :: "string \<Rightarrow> FieldDefinitionMap \<Rightarrow> ObjectT" where
  "objectType n fs = \<lparr>obj_Name = n, obj_Description = [], obj_Fields = fs, obj_Interfaces = []\<rparr>"

definition interfaceType :: "string \<Rightarrow> FieldDefinitionMap \<Rightarrow> InterfaceT" where
  "interfaceType n fs = \<lparr>if_Name = n, if_Description = [], if_Fields = fs\<rparr>"

definition enumType :: "string \<Rightarrow> (string \<times> string) list \<Rightarrow> EnumT" where
  "enumType n vs = \<lparr>en_Name = n, en_Description = [],
     en_Values = map (\<lambda>(v, reason). \<lparr>ev_Name = v, ev_Description = [],
                                     ev_DeprecationReason = reason\<rparr>) vs\<rparr>"

definition scalarType :: "string \<Rightarrow> ScalarT" where
  "scalarType n = \<lparr>sc_Name = n, sc_Description = []\<rparr>"

definition limitArg :: "gql_ref \<Rightarrow> string option \<Rightarrow> Argument" where
  "limitArg t dflt = \<lparr>arg_Name = ''limit'', arg_Type = t, arg_DefaultValue = dflt,
                      arg_Description = []\<rparr>"

text \<open>
  The object types, by address: 0 \<open>Query { hello: String }\<close>; 1 and 2 the two versions of
  \<open>User\<close> of the specification's scenario; 3 \<open>Query { user: User }\<close>; 4
  \<open>RootQuery { hello: String }\<close>; 5, 6 and 7 \<open>Query { users: [User] }\<close> without argument,
  with \<open>limit: Int! = 10\<close> and with \<open>limit: Int\<close>; 8 \<open>User { id: ID! }\<close>; 9 and 10
  \<open>T { a: String }\<close> and \<open>T { a: String! }\<close>; 11 and 12 \<open>A { x: String! }\<close> and
  \<open>A { x: String }\<close>; 13 and 14 \<open>B { z: String }\<close> and \<open>B { z: String y: String }\<close>;
  15 and 16 \<open>Query { t: T }\<close> pointing to the \<open>T\<close> at 9 and to the one at 10.
\<close>

definition exampleObjects :: "(addr \<times> ObjectT) list" where
  "exampleObjects =
    [(0, objectType ''Query'' [field ''hello'' stringT []]),
     (1, objectType ''User''
           [field ''id'' (NonNull idT) [], field ''name'' (NonNull stringT) [],
            field ''email'' stringT []]),
     (2, objectType ''User''
           [field ''id'' (NonNull idT) [], field ''name'' stringT [],
            field ''avatar'' stringT []]),
     (3, objectType ''Query'' [field ''user'' (Named KObject 1) []]),
     (4, objectType ''RootQuery'' [field ''hello'' stringT []]),
     (5, objectType ''Query'' [field ''users'' (List (Named KObject 8)) []]),
     (6, objectType ''Query''
           [field ''users'' (List (Named KObject 8)) [limitArg (NonNull intT) (Some ''10'')]]),
     (7, objectType ''Query'' [field ''users'' (List (Named KObject 8)) [limitArg intT None]]),
     (8, objectType ''User'' [field ''id'' (NonNull idT) []]),
     (9, objectType ''T'' [field ''a'' stringT []]),
     (10, objectType ''T'' [field ''a'' (NonNull stringT) []]),
     (11, objectType ''A'' [field ''x'' (NonNull stringT) []]),
     (12, objectType ''A'' [field ''x'' stringT []]),
     (13, objectType ''B'' [field ''z'' stringT []]),
     (14, objectType ''B'' [field ''z'' stringT [], field ''y'' stringT []]),
     (15, objectType ''Query'' [field ''t'' (Named KObject 9) []]),
     (16, objectType ''Query'' [field ''t'' (Named KObject 10) []])]"

text \<open>Interfaces: 0 \<open>Node { id: ID! name: String }\<close>, 1 \<open>Node { id: ID! }\<close>. Enums: 0
  \<open>Color { RED GREEN }\<close>, 1 \<open>Color { GREEN }\<close>, 2 \<open>Color { RED GREEN BLUE }\<close>, 3
  \<open>Color { RED GREEN }\<close> with \<open>RED\<close> deprecated.\<close>

definition exampleInterfaces :: "(addr \<times> InterfaceT) list" where
  "exampleInterfaces =
    [(0, interfaceType ''Node'' [field ''id'' (NonNull idT) [], field ''name'' stringT []]),
     (1, interfaceType ''Node'' [field ''id'' (NonNull idT) []])]"

definition exampleEnums :: "(addr \<times> EnumT) list" where
  "exampleEnums =
    [(0, enumType ''Color'' [(''RED'', []), (''GREEN'', [])]),
     (1, enumType ''Color'' [(''GREEN'', [])]),
     (2, enumType ''Color'' [(''RED'', []), (''GREEN'', []), (''BLUE'', [])]),
     (3, enumType ''Color'' [(''RED'', ''use GREEN''), (''GREEN'', [])])]"

definition exampleScalars :: "(addr \<times> ScalarT) list" where
  "exampleScalars =
    [(0, scalarType ''String''), (1, scalarType ''ID''), (2, scalarType ''Int'')]"

definition exampleMemory :: memory where
  "exampleMemory =
    \<lparr>objects = (\<lambda>a. case map_of exampleObjects a of Some v \<Rightarrow> v | None \<Rightarrow> objectType [] []),
     interfaces = (\<lambda>a. case map_of exampleInterfaces a of Some v \<Rightarrow> v
                        | None \<Rightarrow> interfaceType [] []),
     unions = (\<lambda>a. \<lparr>un_Name = [], un_Description = [], un_Types = []\<rparr>),
     enums = (\<lambda>a. case map_of exampleEnums a of Some v \<Rightarrow> v | None \<Rightarrow> enumType [] []),
     inputObjects = (\<lambda>a. \<lparr>io_Name = [], io_Description = [], io_Fields = []\<rparr>),
     scalars = (\<lambda>a. case map_of exampleScalars a of Some v \<Rightarrow> v | None \<Rightarrow> scalarType []),
     holdsFunc = (\<lambda>k a. k = KScalar),
     allocated = 17\<rparr>"

text \<open>A schema with the given query root and type map, and a loaded schema around it.\<close>

definition graph :: "addr \<Rightarrow> (string \<times> gql_ref) list \<Rightarrow> graphql_Schema" where
  "graph root tm = \<lparr>TypeMap = tm, Directives = [], QueryType = Some root, MutationType = None,
                    SubscriptionType = None\<rparr>"

definition loaded :: "graphql_Schema \<Rightarrow> core_Schema" where
  "loaded g = \<lparr>Schema = Some g, SDL = [], Hash = [], Source = [], Timestamp = 0\<rparr>"

text \<open>
  The specification's scenario: \<open>type User { id: ID! name: String! email: String }\<close> and
  \<open>type User { id: ID! name: String avatar: String }\<close>, each registered next to
  \<open>type Query { hello: String }\<close>.
\<close>

definition userOld :: graphql_Schema where
  "userOld = graph 0
    [(''Query'', Named KObject 0), (''User'', Named KObject 1), (''ID'', idT),
     (''String'', stringT)]"

definition userNew :: graphql_Schema where
  "userNew = graph 0
    [(''Query'', Named KObject 0), (''User'', Named KObject 2), (''ID'', idT),
     (''String'', stringT)]"

text \<open>\<open>type Query { user: User }\<close> with no type \<open>User\<close> in the type map.\<close>

definition danglingGraph :: graphql_Schema where
  "danglingGraph = graph 3 [(''Query'', Named KObject 3)]"

text \<open>A schema with \<open>interface Node\<close> at the given address, and one with \<open>enum Color\<close> at
  the given address.\<close>

definition nodeSchema :: "addr \<Rightarrow> graphql_Schema" where
  "nodeSchema i = graph 0
    [(''Query'', Named KObject 0), (''Node'', Named KInterface i), (''ID'', idT),
     (''String'', stringT)]"

definition colorSchema :: "addr \<Rightarrow> graphql_Schema" where
  "colorSchema e = graph 0
    [(''Query'', Named KObject 0), (''Color'', Named KEnum e), (''String'', stringT)]"

text \<open>Two object types that can serve as a root, with \<open>Query\<close> as the query root.\<close>

definition rootOld :: graphql_Schema where
  "rootOld = graph 0
    [(''Query'', Named KObject 0), (''RootQuery'', Named KObject 4), (''String'', stringT)]"

text \<open>A schema whose \<open>Query\<close> is the object at the given address (5, 6 or 7), with
  \<open>User { id: ID! }\<close>; and one whose \<open>T\<close> is the object at the given address (9 or 10).\<close>

definition usersSchema :: "addr \<Rightarrow> graphql_Schema" where
  "usersSchema q = graph q
    [(''Query'', Named KObject q), (''User'', Named KObject 8), (''ID'', idT), (''Int'', intT)]"


text \<open>
  Two object types \<open>A\<close> and \<open>B\<close>: \<open>A.x\<close> goes from \<open>String!\<close> to \<open>String\<close> and
  \<open>B\<close> gains the field \<open>y\<close>. \<open>pairRest\<close> holds the types that both versions share.
\<close>

definition pairOld :: "(string \<times> gql_ref) list" where
  "pairOld = [(''A'', Named KObject 11), (''B'', Named KObject 13)]"

definition pairNew :: "(string \<times> gql_ref) list" where
  "pairNew = [(''A'', Named KObject 12), (''B'', Named KObject 14)]"

definition pairRest :: "(string \<times> gql_ref) list" where
  "pairRest = [(''Query'', Named KObject 0), (''String'', stringT)]"

text \<open>\<open>type Query { t: T }\<close> with \<open>type T { a: String }\<close>, and the same two types built
  anew with \<open>a: String!\<close>: each \<open>Query\<close> points to the \<open>T\<close> of its own schema.\<close>

definition referringOld :: graphql_Schema where
  "referringOld = graph 15
    [(''Query'', Named KObject 15), (''T'', Named KObject 9), (''String'', stringT)]"

definition referringNew :: graphql_Schema where
  "referringNew = graph 16
    [(''Query'', Named KObject 16), (''T'', Named KObject 10), (''String'', stringT)]"

section \<open>Lemmas\<close>

lemmas fixture_defs = stringT_def idT_def intT_def field_def objectType_def interfaceType_def
  enumType_def scalarType_def limitArg_def exampleObjects_def exampleInterfaces_def
  exampleEnums_def exampleScalars_def exampleMemory_def graph_def loaded_def

lemmas diff_defs = DiffSchemas_def compareTypes_def compareType_def compareObjectType_def
  compareFields_def compareField_def compareFieldArguments_def argMap_def
  compareImplementedInterfaces_def compareInterfaceType_def compareUnionType_def
  compareEnumType_def compareInputObjectType_def compareScalarType_def
  compareDirectives_def compareSchemaDefinition_def areTypesEqual_def fieldPath_def argPath_def
  typeRemoved_def typeAdded_def sort_Slice_def changeLess_def

subsection \<open>Deep equality to a depth\<close>

text \<open>Comparing one pointer deeper can only tell more values apart.\<close>

lemma refEq_mono:
  assumes "\<And>k a b. R k a b \<Longrightarrow> R' k a b"
  shows "refEq R t t' \<Longrightarrow> refEq R' t t'"
proof (induction t arbitrary: t')
  case (Named k a)
  then show ?case by (cases t') (auto dest: assms)
next
  case (List t)
  then show ?case by (cases t') auto
next
  case (NonNull t)
  then show ?case by (cases t') auto
qed

lemma mapEq_mono:
  assumes "\<And>x y. E x y \<Longrightarrow> E' x y" and "mapEq E xs ys"
  shows "mapEq E' xs ys"
proof -
  have "(case map_of ys k of Some y \<Rightarrow> E' x y | None \<Rightarrow> False)"
    if "(case map_of ys k of Some y \<Rightarrow> E x y | None \<Rightarrow> False)" for k x
    using that assms(1) by (cases "map_of ys k") auto
  with assms(2) show ?thesis
    unfolding mapEq_def list_all_iff by fast
qed

lemma valueEq_mono:
  assumes r: "\<And>k a b. R k a b \<Longrightarrow> R' k a b"
      and v: "valueEq m R k a b"
  shows "valueEq m R' k a b"
proof -
  have ref: "refEq R t t' \<Longrightarrow> refEq R' t t'" for t t'
    by (rule refEq_mono [OF r])
  have arg: "argEq R x y \<Longrightarrow> argEq R' x y" for x y
    by (auto simp: argEq_def dest: ref)
  have fld: "fieldEq R x y \<Longrightarrow> fieldEq R' x y" for x y
    by (auto simp: fieldEq_def dest: ref elim: list_all2_mono arg)
  have inp: "inputFieldEq R x y \<Longrightarrow> inputFieldEq R' x y" for x y
    by (auto simp: inputFieldEq_def dest: ref)
  have ptr: "list_all2 (\<lambda>i j. i = j \<or> R k' i j) xs ys
             \<Longrightarrow> list_all2 (\<lambda>i j. i = j \<or> R' k' i j) xs ys" for k' xs ys
    by (erule list_all2_mono) (auto dest: r)
  from v show ?thesis
    by (cases k) (auto intro: mapEq_mono [OF fld] mapEq_mono [OF inp] ptr)
qed

lemma deepEqualTo_shrinks: "deepEqualTo m (Suc n) k a b \<Longrightarrow> deepEqualTo m n k a b"
proof (induction n arbitrary: k a b)
  case 0
  then show ?case by simp
next
  case (Suc n)
  from Suc.prems have v: "valueEq m (deepEqualTo m (Suc n)) k a b"
    and f: "\<not> holdsFunc m k a" "\<not> holdsFunc m k b" by simp_all
  have "valueEq m (deepEqualTo m n) k a b"
    using Suc.IH v by (rule valueEq_mono)
  with f show ?case by simp
qed

subsection \<open>The sort returns a permutation\<close>

lemma length_insertionStep: "length (insertionStep f d j) = length d"
  by (induction f d j rule: insertionStep.induct) simp_all

lemma mset_insertionStep: "j < length d \<Longrightarrow> mset (insertionStep f d j) = mset d"
proof (induction f d j rule: insertionStep.induct)
  case (1 f d)
  then show ?case by simp
next
  case (2 f d j)
  show ?case
  proof (cases "f (d ! Suc j) (d ! j)")
    case True
    have sw: "mset (d[Suc j := d ! j, j := d ! Suc j]) = mset d"
      using "2.prems" by (simp add: mset_swap)
    from True "2.IH" "2.prems" sw show ?thesis by simp
  next
    case False
    then show ?thesis by simp
  qed
qed

lemma mset_foldl_insertionStep:
  "\<forall>i\<in>set is. i < length d \<Longrightarrow> mset (foldl (insertionStep f) d is) = mset d"
proof (induction "is" arbitrary: d)
  case Nil
  then show ?case by simp
next
  case (Cons i "is")
  have "\<forall>k\<in>set is. k < length (insertionStep f d i)"
    using Cons.prems by (simp add: length_insertionStep)
  then have "mset (foldl (insertionStep f) (insertionStep f d i) is) = mset (insertionStep f d i)"
    by (rule Cons.IH)
  then show ?case using Cons.prems by (simp add: mset_insertionStep)
qed

lemma mset_sort_Slice: "mset (sort_Slice d f) = mset d"
  unfolding sort_Slice_def by (rule mset_foldl_insertionStep) simp

lemma set_sort_Slice: "set (sort_Slice d f) = set d"
  using mset_sort_Slice [of d f] by (metis set_mset_mset)

lemma sort_Slice_Nil: "sort_Slice [] f = []"
  by (simp add: sort_Slice_def)


subsection \<open>DiffSchemas on two loaded schemas\<close>

lemma DiffSchemas_graphs:
  "Schema a = Some og \<Longrightarrow> Schema b = Some ng \<Longrightarrow>
   DiffSchemas m (Some a) (Some b) options =
     Inr (sort_Slice (compareTypes m og ng (optionsOrDefault options)) changeLess)"
  by (simp add: DiffSchemas_def optionsOrDefault_def compareDirectives_def compareSchemaDefinition_def
      split: option.splits)

subsection \<open>Comparing a thing with itself\<close>

lemma concat_map_Nil: "(\<And>x. x \<in> set xs \<Longrightarrow> f x = []) \<Longrightarrow> concat (map f xs) = []"
  by (induction xs) simp_all

lemma map_of_mem_not_None: "(k, v) \<in> set m \<Longrightarrow> map_of m k \<noteq> None"
  by (metis weak_map_of_SomeI option.distinct(1))

lemma compareFieldArguments_refl: "compareFieldArguments m T f as as options = []"
  unfolding compareFieldArguments_def Let_def
  by (auto intro!: concat_map_Nil dest: map_of_mem_not_None)

lemma refEq_refl: "refEq R t t"
  by (induction t) simp_all

lemma compareField_refl: "compareField m T f fd fd options = []"
  by (simp add: compareField_def areTypesEqual_def refEq_refl compareFieldArguments_refl)

lemma compareFields_refl:
  assumes "distinct (map fst fs)"
  shows "compareFields m T fs fs options = []"
proof -
  have look: "\<And>k v. (k, v) \<in> set fs \<Longrightarrow> map_of fs k = Some v"
    using assms by simp
  show ?thesis
    unfolding compareFields_def
    by (auto intro!: concat_map_Nil simp: look compareField_refl)
qed

lemma compareType_refl:
  assumes "fieldsUnique m t"
  shows "compareType m T t t options = []"
  using assms
  by (cases t rule: getTypeKind.cases)
     (simp_all add: compareType_def compareObjectType_def compareFields_refl
        compareImplementedInterfaces_def compareInterfaceType_def compareUnionType_def
        compareEnumType_def compareInputObjectType_def compareScalarType_def)

lemma compareTypes_refl:
  assumes "uniqueKeys m g"
  shows "compareTypes m g g options = []"
proof -
  have d: "distinct (map fst (TypeMap g))"
    and w: "\<And>k t. (k, t) \<in> set (TypeMap g) \<Longrightarrow> fieldsUnique m t"
    using assms by (auto simp: uniqueKeys_def list_all_iff)
  have look: "\<And>k t. (k, t) \<in> set (TypeMap g) \<Longrightarrow> map_of (TypeMap g) k = Some t"
    using d by simp
  show ?thesis
    unfolding compareTypes_def Let_def
    by (auto intro!: concat_map_Nil simp: look compareType_refl w)
qed

subsection \<open>Schemas that differ in one field\<close>

















subsection \<open>Which changes a type comparison can contain\<close>

lemma removed_msg_inj:
  "(''Type '' @ CHR 0x27 # n @ CHR 0x27 # '' was removed'' =
    ''Type '' @ CHR 0x27 # T @ CHR 0x27 # '' was removed'') \<longleftrightarrow> n = T"
  by simp

lemma added_msg_inj:
  "(''Type '' @ CHR 0x27 # n @ CHR 0x27 # '' was added'' =
    ''Type '' @ CHR 0x27 # T @ CHR 0x27 # '' was added'') \<longleftrightarrow> n = T"
  by simp

lemma removed_msg_not_added:
  "''Type '' @ CHR 0x27 # n @ CHR 0x27 # '' was removed'' \<noteq>
   ''Type '' @ CHR 0x27 # T @ CHR 0x27 # '' was added''"
proof
  assume "''Type '' @ CHR 0x27 # n @ CHR 0x27 # '' was removed'' =
          ''Type '' @ CHR 0x27 # T @ CHR 0x27 # '' was added''"
  then have "rev (''Type '' @ CHR 0x27 # n @ CHR 0x27 # '' was removed'') =
             rev (''Type '' @ CHR 0x27 # T @ CHR 0x27 # '' was added'')"
    by (rule arg_cong)
  then show False by simp
qed

lemma last_getTypeKind: "last (getTypeKind t) \<noteq> CHR ''d''" and getTypeKind_nonempty: "getTypeKind t \<noteq> []"
  by (cases t rule: getTypeKind.cases; simp)+

lemma compareFieldArguments_head:
  "c \<in> set (compareFieldArguments m T f oldArgs newArgs options) \<Longrightarrow> hd (Message c) = CHR ''A''"
  unfolding compareFieldArguments_def Let_def
  by (auto split: if_splits)

lemma compareField_head:
  "c \<in> set (compareField m T f oldField newField options) \<Longrightarrow>
   hd (Message c) = CHR ''A'' \<or> hd (Message c) = CHR ''F''"
  unfolding compareField_def
  by (auto split: if_splits dest: compareFieldArguments_head)

lemma compareFields_head:
  "c \<in> set (compareFields m T oldFields newFields options) \<Longrightarrow>
   hd (Message c) = CHR ''A'' \<or> hd (Message c) = CHR ''F''"
  unfolding compareFields_def
  by (auto split: if_splits option.splits dest: compareField_head)

lemma compareObjectType_head:
  "c \<in> set (compareObjectType m T oldType newType options) \<Longrightarrow> hd (Message c) \<noteq> CHR ''T''"
  unfolding compareObjectType_def compareImplementedInterfaces_def
  by (auto split: if_splits dest: compareFields_head)

lemma compareType_msg:
  assumes "c \<in> set (compareType m n oldType newType options)"
  shows "hd (Message c) \<noteq> CHR ''T'' \<or> last (Message c) \<noteq> CHR ''d''"
proof (cases "getTypeKind oldType \<noteq> getTypeKind newType")
  case True
  with assms have "Message c = ''Type '' @ CHR 0x27 # n @ CHR 0x27 # '' changed from ''
                   @ getTypeKind oldType @ '' to '' @ getTypeKind newType"
    by (simp add: compareType_def)
  then have "last (Message c) = last (getTypeKind newType)"
    by (simp add: getTypeKind_nonempty)
  then show ?thesis by (simp add: last_getTypeKind)
next
  case False
  with assms have "hd (Message c) \<noteq> CHR ''T''"
    by (cases oldType rule: getTypeKind.cases; cases newType rule: getTypeKind.cases)
       (auto simp: compareType_def compareInterfaceType_def compareUnionType_def
          compareEnumType_def compareInputObjectType_def compareScalarType_def
        dest: compareObjectType_head)
  then show ?thesis by simp
qed

lemma mem_concat_map:
  "c \<in> set (concat (map f xs)) \<longleftrightarrow> (\<exists>x \<in> set xs. c \<in> set (f x))"
  by simp

lemma compareTypes_mem:
  "c \<in> set (compareTypes m og ng options) \<longleftrightarrow>
     (\<exists>(n, t) \<in> set (TypeMap og). map_of (TypeMap ng) n = None \<and> c = typeRemoved n t)
   \<or> (\<exists>(n, t) \<in> set (TypeMap ng). map_of (TypeMap og) n = None \<and> c = typeAdded n t)
   \<or> (\<exists>(n, t) \<in> set (TypeMap og). \<exists>t'. map_of (TypeMap ng) n = Some t'
         \<and> c \<in> set (compareType m n t t' options))"
proof -
  have r: "(\<exists>x \<in> set xs. c \<in> set ((\<lambda>(name, oldType).
              if map_of tm name = None then [typeRemoved name oldType] else []) x))
       \<longleftrightarrow> (\<exists>(n, t) \<in> set xs. map_of tm n = None \<and> c = typeRemoved n t)" for xs tm
    by (rule bex_cong [OF refl]) (simp split: prod.splits)
  have a: "(\<exists>x \<in> set xs. c \<in> set ((\<lambda>(name, newType).
              if map_of tm name = None then [typeAdded name newType] else []) x))
       \<longleftrightarrow> (\<exists>(n, t) \<in> set xs. map_of tm n = None \<and> c = typeAdded n t)" for xs tm
    by (rule bex_cong [OF refl]) (simp split: prod.splits)
  have md: "(\<exists>x \<in> set xs. c \<in> set ((\<lambda>(name, oldType).
              case map_of tm name of
                Some newType \<Rightarrow> compareType m name oldType newType options
              | None \<Rightarrow> []) x))
       \<longleftrightarrow> (\<exists>(n, t) \<in> set xs. \<exists>t'. map_of tm n = Some t'
              \<and> c \<in> set (compareType m n t t' options))" for xs tm
  proof (rule bex_cong [OF refl])
    fix x :: "string \<times> gql_ref"
    obtain n t where x: "x = (n, t)" by (cases x)
    show "c \<in> set ((\<lambda>(name, oldType).
              case map_of tm name of
                Some newType \<Rightarrow> compareType m name oldType newType options
              | None \<Rightarrow> []) x)
       \<longleftrightarrow> (case x of (n, t) \<Rightarrow> \<exists>t'. map_of tm n = Some t'
              \<and> c \<in> set (compareType m n t t' options))"
      unfolding x by (cases "map_of tm n") simp_all
  qed
  show ?thesis
    unfolding compareTypes_def Let_def set_append Un_iff mem_concat_map r a md ..
qed

lemma reports_removed_iff:
  "(\<exists>c \<in> set (compareTypes m og ng options).
      Type c = ChangeTypeBreaking \<and> Path c = T \<and>
      Message c = ''Type '' @ CHR 0x27 # T @ CHR 0x27 # '' was removed'')
   \<longleftrightarrow> (T \<in> fst ` set (TypeMap og) \<and> map_of (TypeMap ng) T = None)"
  (is "?L \<longleftrightarrow> ?R")
proof
  assume ?L
  then obtain c where c: "c \<in> set (compareTypes m og ng options)"
    and m: "Message c = ''Type '' @ CHR 0x27 # T @ CHR 0x27 # '' was removed''" by blast
  from m have hl: "hd (Message c) = CHR ''T''" "last (Message c) = CHR ''d''" by simp_all
  from c consider
      (rem) n t where "(n, t) \<in> set (TypeMap og)" "map_of (TypeMap ng) n = None" "c = typeRemoved n t"
    | (add) n t where "c = typeAdded n t"
    | (mod) n t t' where "c \<in> set (compareType m n t t' options)"
    unfolding compareTypes_mem by blast
  then show ?R
  proof cases
    case rem
    from rem(3) m have "n = T" by (simp add: typeRemoved_def)
    with rem(1,2) show ?thesis by force
  next
    case add
    with m removed_msg_not_added [of T n] show ?thesis by (simp add: typeAdded_def)
  next
    case mod
    with hl compareType_msg show ?thesis by blast
  qed
next
  assume ?R
  then obtain t where "(T, t) \<in> set (TypeMap og)" "map_of (TypeMap ng) T = None" by auto
  then have "typeRemoved T t \<in> set (compareTypes m og ng options)"
    unfolding compareTypes_mem by blast
  then show ?L by (force simp: typeRemoved_def)
qed

lemma reports_added_iff:
  "(\<exists>c \<in> set (compareTypes m og ng options).
      Type c = ChangeTypeNonBreaking \<and> Path c = T \<and>
      Message c = ''Type '' @ CHR 0x27 # T @ CHR 0x27 # '' was added'')
   \<longleftrightarrow> (T \<in> fst ` set (TypeMap ng) \<and> map_of (TypeMap og) T = None)"
  (is "?L \<longleftrightarrow> ?R")
proof
  assume ?L
  then obtain c where c: "c \<in> set (compareTypes m og ng options)"
    and m: "Message c = ''Type '' @ CHR 0x27 # T @ CHR 0x27 # '' was added''" by blast
  from m have hl: "hd (Message c) = CHR ''T''" "last (Message c) = CHR ''d''" by simp_all
  from c consider
      (rem) n t where "c = typeRemoved n t"
    | (add) n t where "(n, t) \<in> set (TypeMap ng)" "map_of (TypeMap og) n = None" "c = typeAdded n t"
    | (mod) n t t' where "c \<in> set (compareType m n t t' options)"
    unfolding compareTypes_mem by blast
  then show ?R
  proof cases
    case rem
    with m removed_msg_not_added [of n T] show ?thesis by (simp add: typeRemoved_def)
  next
    case add
    from add(3) m have "n = T" by (simp add: typeAdded_def)
    with add(1,2) show ?thesis by force
  next
    case mod
    with hl compareType_msg show ?thesis by blast
  qed
next
  assume ?R
  then obtain t where "(T, t) \<in> set (TypeMap ng)" "map_of (TypeMap og) T = None" by auto
  then have "typeAdded T t \<in> set (compareTypes m og ng options)"
    unfolding compareTypes_mem by blast
  then show ?L by (force simp: typeAdded_def)
qed

subsection \<open>Changes of fields and arguments reach the result\<close>

lemma argMap_keys_foldl:
  "fst ` set (foldl (\<lambda>m arg. AList.update (arg_Name arg) arg m) m0 args)
   = fst ` set m0 \<union> arg_Name ` set args"
  by (induction args arbitrary: m0) (auto simp: dom_update)

lemma argMap_keys: "fst ` set (argMap args) = arg_Name ` set args"
  by (simp add: argMap_def argMap_keys_foldl)

lemma argMap_None_iff: "map_of (argMap args) n = None \<longleftrightarrow> n \<notin> arg_Name ` set args"
  by (simp add: map_of_eq_None_iff argMap_keys)

lemma mem_concat_mapI: "x \<in> set xs \<Longrightarrow> c \<in> set (f x) \<Longrightarrow> c \<in> set (concat (map f xs))"
  by auto

lemma argument_removed_mem:
  assumes "n \<in> arg_Name ` set oldArgs" and "n \<notin> arg_Name ` set newArgs"
  shows "\<exists>c \<in> set (compareFieldArguments m T f oldArgs newArgs options).
           Type c = ChangeTypeBreaking \<and> Path c = argPath T f n"
proof -
  from assms(1) obtain a where a: "(n, a) \<in> set (argMap oldArgs)"
    using argMap_keys [of oldArgs] by force
  have none: "map_of (argMap newArgs) n = None"
    using assms(2) by (simp add: argMap_None_iff)
  let ?c = "\<lparr>Type = ChangeTypeBreaking,
             Message = ''Argument '' @ CHR 0x27 # n @ CHR 0x27 # '' was removed from field ''
                       @ CHR 0x27 # T @ ''.'' @ f @ [CHR 0x27],
             Path = argPath T f n,
             Criticality = ''HIGH'',
             Meta = [(''typeName'', T), (''fieldName'', f), (''argName'', n)]\<rparr>"
  have "?c \<in> set (compareFieldArguments m T f oldArgs newArgs options)"
    unfolding compareFieldArguments_def Let_def set_append Un_iff
    by (rule disjI1, rule mem_concat_mapI [OF a]) (simp add: none)
  then show ?thesis by (rule rev_bexI) simp
qed

lemma argument_added_mem:
  assumes "map_of (argMap newArgs) n = Some a" and "n \<notin> arg_Name ` set oldArgs"
  shows "\<exists>c \<in> set (compareFieldArguments m T f oldArgs newArgs options).
           Type c = (if isRequiredType (arg_Type a) then ChangeTypeBreaking
                     else ChangeTypeNonBreaking)
           \<and> Path c = argPath T f n"
proof -
  from assms(1) have a: "(n, a) \<in> set (argMap newArgs)"
    by (rule map_of_SomeD)
  have none: "map_of (argMap oldArgs) n = None"
    using assms(2) by (simp add: argMap_None_iff)
  let ?c = "\<lparr>Type = (if isRequiredType (arg_Type a) then ChangeTypeBreaking
                     else ChangeTypeNonBreaking),
             Message = ''Argument '' @ CHR 0x27 # n @ CHR 0x27 # '' was added to field ''
                       @ CHR 0x27 # T @ ''.'' @ f @ [CHR 0x27],
             Path = argPath T f n,
             Criticality = (if isRequiredType (arg_Type a) then ''HIGH'' else ''LOW''),
             Meta = [(''typeName'', T), (''fieldName'', f), (''argName'', n),
                     (''argType'', getTypeString m (arg_Type a))]\<rparr>"
  have "?c \<in> set (compareFieldArguments m T f oldArgs newArgs options)"
    unfolding compareFieldArguments_def Let_def set_append Un_iff
    by (rule disjI2, rule mem_concat_mapI [OF a]) (simp add: none)
  then show ?thesis by (rule rev_bexI) simp
qed

lemma compareField_args_subset:
  "set (compareFieldArguments m T f (fd_Args oldField) (fd_Args newField) options)
   \<subseteq> set (compareField m T f oldField newField options)"
  unfolding compareField_def set_append by blast

lemma compareFields_modified_subset:
  assumes "(f, oldField) \<in> set oldFields" and "map_of newFields f = Some newField"
  shows "set (compareField m T f oldField newField options)
         \<subseteq> set (compareFields m T oldFields newFields options)"
proof
  fix c assume c: "c \<in> set (compareField m T f oldField newField options)"
  show "c \<in> set (compareFields m T oldFields newFields options)"
    unfolding compareFields_def set_append Un_iff
    by (rule disjI2, rule disjI2, rule mem_concat_mapI [OF assms(1)]) (simp add: assms(2) c)
qed

lemma compareFields_removed_mem:
  assumes "(f, oldField) \<in> set oldFields" and "map_of newFields f = None"
  shows "\<exists>c \<in> set (compareFields m T oldFields newFields options).
           Type c = ChangeTypeBreaking \<and> Path c = fieldPath T f"
proof -
  let ?c = "\<lparr>Type = ChangeTypeBreaking,
          Message = ''Field '' @ CHR 0x27 # T @ ''.'' @ f @ CHR 0x27 # '' was removed'',
          Path = fieldPath T f,
          Criticality = ''HIGH'',
          Meta = [(''typeName'', T), (''fieldName'', f)]\<rparr>"
  have "?c \<in> set (compareFields m T oldFields newFields options)"
    unfolding compareFields_def set_append Un_iff
    by (rule disjI1, rule mem_concat_mapI [OF assms(1)]) (simp add: assms(2))
  then show ?thesis by (rule rev_bexI) simp
qed

lemma compareFields_added_mem:
  assumes "(f, newField) \<in> set newFields" and "map_of oldFields f = None"
  shows "\<exists>c \<in> set (compareFields m T oldFields newFields options).
           Type c = ChangeTypeNonBreaking \<and> Path c = fieldPath T f"
proof -
  let ?c = "\<lparr>Type = ChangeTypeNonBreaking,
          Message = ''Field '' @ CHR 0x27 # T @ ''.'' @ f @ CHR 0x27 # '' was added'',
          Path = fieldPath T f,
          Criticality = ''LOW'',
          Meta = [(''typeName'', T), (''fieldName'', f)]\<rparr>"
  have "?c \<in> set (compareFields m T oldFields newFields options)"
    unfolding compareFields_def set_append Un_iff
    by (rule disjI2, rule disjI1, rule mem_concat_mapI [OF assms(1)]) (simp add: assms(2))
  then show ?thesis by (rule rev_bexI) simp
qed

lemma compareObjectType_fields_subset:
  "set (compareFields m T (obj_Fields oldType) (obj_Fields newType) options)
   \<subseteq> set (compareObjectType m T oldType newType options)"
  unfolding compareObjectType_def set_append by blast

lemma compareTypes_object_subset:
  assumes "(T, Named KObject p) \<in> set (TypeMap og)"
      and "map_of (TypeMap ng) T = Some (Named KObject q)"
  shows "set (compareObjectType m T (objects m p) (objects m q) options)
         \<subseteq> set (compareTypes m og ng options)"
proof
  fix c assume c: "c \<in> set (compareObjectType m T (objects m p) (objects m q) options)"
  then have "c \<in> set (compareType m T (Named KObject p) (Named KObject q) options)"
    by (simp add: compareType_def)
  with assms show "c \<in> set (compareTypes m og ng options)"
    unfolding compareTypes_mem by blast
qed

lemma object_field_subset:
  assumes "(T, Named KObject p) \<in> set (TypeMap og)"
      and "map_of (TypeMap ng) T = Some (Named KObject q)"
      and "(f, oldField) \<in> set (obj_Fields (objects m p))"
      and "map_of (obj_Fields (objects m q)) f = Some newField"
  shows "set (compareFieldArguments m T f (fd_Args oldField) (fd_Args newField) options)
         \<subseteq> set (compareTypes m og ng options)"
  using compareField_args_subset [of m T f oldField newField options]
        compareFields_modified_subset [OF assms(3,4), of m T options]
        compareObjectType_fields_subset [of m T "objects m p" "objects m q" options]
        compareTypes_object_subset [OF assms(1,2), of m options]
  by blast

text \<open>
  For an object type present in both schemas, a field that only the old version has is
  reported as BREAKING and a field that only the new version has as NON_BREAKING, both
  at path \<open>Type.field\<close>, whatever the field's type.
\<close>

lemma object_field_existence_changes:
  assumes "Schema old = Some og" and "Schema new = Some ng"
      and "(T, Named KObject p) \<in> set (TypeMap og)"
      and "map_of (TypeMap ng) T = Some (Named KObject q)"
  shows "\<exists>cs. DiffSchemas m (Some old) (Some new) options = Inr cs
     \<and> (f \<in> fst ` set (obj_Fields (objects m p)) \<and> f \<notin> fst ` set (obj_Fields (objects m q))
        \<longrightarrow> (\<exists>c \<in> set cs. Type c = ChangeTypeBreaking \<and> Path c = T @ ''.'' @ f))
     \<and> (f \<in> fst ` set (obj_Fields (objects m q)) \<and> f \<notin> fst ` set (obj_Fields (objects m p))
        \<longrightarrow> (\<exists>c \<in> set cs. Type c = ChangeTypeNonBreaking \<and> Path c = T @ ''.'' @ f))"
proof -
  let ?opts = "optionsOrDefault options"
  let ?ot = "objects m p" and ?nt = "objects m q"
  let ?fs = "compareFields m T (obj_Fields ?ot) (obj_Fields ?nt) ?opts"
  let ?cs = "sort_Slice (compareTypes m og ng ?opts) changeLess"
  have sub: "set ?fs \<subseteq> set ?cs"
    unfolding set_sort_Slice
    using compareObjectType_fields_subset [of m T ?ot ?nt ?opts]
          compareTypes_object_subset [OF assms(3,4), of m ?opts]
    by blast
  have p: "fieldPath T f = T @ ''.'' @ f"
    by (simp add: fieldPath_def)
  have removed: "\<exists>c \<in> set ?cs. Type c = ChangeTypeBreaking \<and> Path c = fieldPath T f"
    if "f \<in> fst ` set (obj_Fields ?ot)" "f \<notin> fst ` set (obj_Fields ?nt)"
  proof -
    from that(1) obtain fd where "(f, fd) \<in> set (obj_Fields ?ot)" by force
    moreover from that(2) have "map_of (obj_Fields ?nt) f = None"
      by (simp add: map_of_eq_None_iff)
    ultimately show ?thesis
      using compareFields_removed_mem [of f fd "obj_Fields ?ot" "obj_Fields ?nt" m T ?opts] sub
      by blast
  qed
  have added: "\<exists>c \<in> set ?cs. Type c = ChangeTypeNonBreaking \<and> Path c = fieldPath T f"
    if "f \<in> fst ` set (obj_Fields ?nt)" "f \<notin> fst ` set (obj_Fields ?ot)"
  proof -
    from that(1) obtain fd where "(f, fd) \<in> set (obj_Fields ?nt)" by force
    moreover from that(2) have "map_of (obj_Fields ?ot) f = None"
      by (simp add: map_of_eq_None_iff)
    ultimately show ?thesis
      using compareFields_added_mem [of f fd "obj_Fields ?nt" "obj_Fields ?ot" m T ?opts] sub
      by blast
  qed
  have "DiffSchemas m (Some old) (Some new) options = Inr ?cs"
    by (rule DiffSchemas_graphs [OF assms(1,2)])
  with removed added show ?thesis unfolding p by blast
qed

section \<open>The claims\<close>

subsection \<open>C1: order of the result\<close>

text \<open>
  C1 says that the sequence returned by \<open>DiffSchemas\<close> is sorted by severity
  (BREAKING, then DANGEROUS, then SAFE) and, within one severity, by path. The comparison
  function only asks whether the left change is BREAKING, so a DANGEROUS and a
  NON_BREAKING change are never exchanged. On the specification's own scenario
  (\<open>User.email\<close> removed, \<open>User.name\<close> relaxed from \<open>String!\<close> to \<open>String\<close>,
  \<open>User.avatar\<close> added) the result is BREAKING, NON_BREAKING, DANGEROUS: the safe change
  comes before the dangerous one. Each loop of the comparison contributes at most one of
  the three changes, so on this input the outcome is the same however the maps are
  visited.
\<close>

theorem C1_user_scenario_order:
  "DiffSchemas exampleMemory (Some (loaded userOld)) (Some (loaded userNew)) None =
   Inr [\<lparr>Type = ChangeTypeBreaking,
         Message = ''Field '' @ CHR 0x27 # ''User.email'' @ CHR 0x27 # '' was removed'',
         Path = ''User.email'', Criticality = ''HIGH'',
         Meta = [(''typeName'', ''User''), (''fieldName'', ''email'')]\<rparr>,
        \<lparr>Type = ChangeTypeNonBreaking,
         Message = ''Field '' @ CHR 0x27 # ''User.avatar'' @ CHR 0x27 # '' was added'',
         Path = ''User.avatar'', Criticality = ''LOW'',
         Meta = [(''typeName'', ''User''), (''fieldName'', ''avatar'')]\<rparr>,
        \<lparr>Type = ChangeTypeDangerous,
         Message = ''Field '' @ CHR 0x27 # ''User.name'' @ CHR 0x27 #
                   '' changed type from String! to String'',
         Path = ''User.name'', Criticality = ''MEDIUM'',
         Meta = [(''typeName'', ''User''), (''fieldName'', ''name''),
                 (''oldType'', ''String!''), (''newType'', ''String'')]\<rparr>]"
  by (simp add: userOld_def userNew_def fixture_defs diff_defs upt_rec)

text \<open>
  The same defect makes the result depend on the order in which the type map is visited.
  The two runs below compare the same two schemas; the old type map is the same map in
  both, visited as \<open>A, B\<close> in the first run and as \<open>B, A\<close> in the second. The first
  run returns the dangerous change before the safe one, the second the safe one first.
\<close>

lemma result_order_follows_map_iteration:
  "map_of (rev pairOld @ pairRest) = map_of (pairOld @ pairRest)
   \<and> DiffSchemas exampleMemory (Some (loaded (graph 0 (pairOld @ pairRest))))
        (Some (loaded (graph 0 (pairNew @ pairRest)))) None =
     Inr [\<lparr>Type = ChangeTypeDangerous,
           Message = ''Field '' @ CHR 0x27 # ''A.x'' @ CHR 0x27 #
                     '' changed type from String! to String'',
           Path = ''A.x'', Criticality = ''MEDIUM'',
           Meta = [(''typeName'', ''A''), (''fieldName'', ''x''),
                   (''oldType'', ''String!''), (''newType'', ''String'')]\<rparr>,
          \<lparr>Type = ChangeTypeNonBreaking,
           Message = ''Field '' @ CHR 0x27 # ''B.y'' @ CHR 0x27 # '' was added'',
           Path = ''B.y'', Criticality = ''LOW'',
           Meta = [(''typeName'', ''B''), (''fieldName'', ''y'')]\<rparr>]
   \<and> DiffSchemas exampleMemory (Some (loaded (graph 0 (rev pairOld @ pairRest))))
        (Some (loaded (graph 0 (pairNew @ pairRest)))) None =
     Inr [\<lparr>Type = ChangeTypeNonBreaking,
           Message = ''Field '' @ CHR 0x27 # ''B.y'' @ CHR 0x27 # '' was added'',
           Path = ''B.y'', Criticality = ''LOW'',
           Meta = [(''typeName'', ''B''), (''fieldName'', ''y'')]\<rparr>,
          \<lparr>Type = ChangeTypeDangerous,
           Message = ''Field '' @ CHR 0x27 # ''A.x'' @ CHR 0x27 #
                     '' changed type from String! to String'',
           Path = ''A.x'', Criticality = ''MEDIUM'',
           Meta = [(''typeName'', ''A''), (''fieldName'', ''x''),
                   (''oldType'', ''String!''), (''newType'', ''String'')]\<rparr>]"
proof -
  have "map_of (rev pairOld @ pairRest) = map_of (pairOld @ pairRest)"
    by (rule ext) (simp add: pairOld_def pairRest_def)
  then show ?thesis
    by (simp add: pairOld_def pairNew_def pairRest_def fixture_defs diff_defs upt_rec)
qed

subsection \<open>C2: dangling type references\<close>

text \<open>
  C2 as stated fails: a schema whose field \<open>Query.user\<close> refers to a type \<open>User\<close> that
  the type map does not hold is compared with itself without any error, and the result is
  the empty list.
\<close>

theorem C2_dangling_reference_counterexample:
  "danglingReference exampleMemory danglingGraph \<and>
   DiffSchemas exampleMemory (Some (loaded danglingGraph)) (Some (loaded danglingGraph)) None
     = Inr []"
  by (simp add: danglingGraph_def danglingReference_def fixture_defs diff_defs refEq_refl)

text \<open>
  C2, amended: \<open>DiffSchemas\<close> does not check that type references resolve. Whenever
  both arguments are schemas that wrap a type graph, it returns a list of changes and no
  error, whether or not a field's type reference names a type that is absent from its
  schema.
\<close>

theorem C2_loaded_schemas_yield_changes:
  assumes "Schema old = Some og" and "Schema new = Some ng"
  shows "\<exists>cs. DiffSchemas m (Some old) (Some new) options = Inr cs"
  using DiffSchemas_graphs [OF assms] by blast

theorem C2_loaded_schemas_yield_changes_witness:
  "danglingReference exampleMemory danglingGraph
   \<and> (\<exists>cs. DiffSchemas exampleMemory (Some (loaded danglingGraph)) (Some (loaded userOld)) None
             = Inr cs)
   \<and> (\<exists>cs. DiffSchemas exampleMemory (Some (loaded userOld)) (Some (loaded danglingGraph)) None
             = Inr cs)"
  using C2_loaded_schemas_yield_changes
          [of "loaded danglingGraph" danglingGraph "loaded userOld" userOld exampleMemory None]
        C2_loaded_schemas_yield_changes
          [of "loaded userOld" userOld "loaded danglingGraph" danglingGraph exampleMemory None]
  by (simp add: loaded_def danglingReference_def danglingGraph_def fixture_defs)

subsection \<open>C3: fields removed and added\<close>

text \<open>
  C3 says that a field removed from an object or interface type is reported as BREAKING
  and an added one as SAFE. For object types this is lemma
  \<open>object_field_existence_changes\<close>. For interface types the comparison is a placeholder
  that returns no change: removing \<open>name\<close> from \<open>interface Node { id: ID! name: String }\<close>
  yields the empty list, and so does adding it.
\<close>

theorem C3_interface_fields_not_compared:
  "DiffSchemas exampleMemory (Some (loaded (nodeSchema 0))) (Some (loaded (nodeSchema 1))) None
     = Inr []
   \<and> DiffSchemas exampleMemory (Some (loaded (nodeSchema 1))) (Some (loaded (nodeSchema 0))) None
     = Inr []"
  by (simp add: nodeSchema_def fixture_defs diff_defs refEq_refl)

subsection \<open>C4: enum values\<close>

text \<open>
  C4 says that removing an enum value is reported as BREAKING and adding one as
  DANGEROUS. The enum comparison is a placeholder that returns no change: removing
  \<open>RED\<close> from \<open>enum Color { RED GREEN }\<close> yields the empty list, and so do adding
  \<open>BLUE\<close> and deprecating \<open>RED\<close>.
\<close>

theorem C4_enum_values_not_compared:
  "DiffSchemas exampleMemory (Some (loaded (colorSchema 0))) (Some (loaded (colorSchema 1))) None
     = Inr []
   \<and> DiffSchemas exampleMemory (Some (loaded (colorSchema 0))) (Some (loaded (colorSchema 2))) None
     = Inr []
   \<and> DiffSchemas exampleMemory (Some (loaded (colorSchema 0))) (Some (loaded (colorSchema 3))) None
     = Inr []"
  by (simp add: colorSchema_def fixture_defs diff_defs refEq_refl)

subsection \<open>C5: root operation types\<close>

text \<open>
  C5 says that a changed or removed root operation type is reported as BREAKING and a
  newly introduced one as SAFE. The comparison of the schema definition is a placeholder
  that returns no change: with the same types on both sides, changing the query root from
  \<open>Query\<close> to \<open>RootQuery\<close>, introducing a mutation root and removing it again each yield
  the empty list.
\<close>

theorem C5_root_types_not_compared:
  "DiffSchemas exampleMemory (Some (loaded rootOld))
      (Some (loaded (rootOld\<lparr>QueryType := Some 4\<rparr>))) None = Inr []
   \<and> DiffSchemas exampleMemory (Some (loaded rootOld))
      (Some (loaded (rootOld\<lparr>MutationType := Some 4\<rparr>))) None = Inr []
   \<and> DiffSchemas exampleMemory (Some (loaded (rootOld\<lparr>MutationType := Some 4\<rparr>)))
      (Some (loaded rootOld)) None = Inr []"
  by (simp add: rootOld_def fixture_defs diff_defs refEq_refl)

subsection \<open>C6: arguments\<close>

text \<open>
  C6 as stated fails where it calls an argument with a default value optional: adding
  \<open>limit: Int! = 10\<close> to \<open>Query.users\<close> yields exactly one change, and it is BREAKING,
  not SAFE.
\<close>

theorem C6_required_with_default_counterexample:
  "DiffSchemas exampleMemory (Some (loaded (usersSchema 5))) (Some (loaded (usersSchema 6))) None =
   Inr [\<lparr>Type = ChangeTypeBreaking,
         Message = ''Argument '' @ CHR 0x27 # ''limit'' @ CHR 0x27 # '' was added to field ''
                   @ CHR 0x27 # ''Query.users'' @ [CHR 0x27],
         Path = ''Query.users(limit:)'', Criticality = ''HIGH'',
         Meta = [(''typeName'', ''Query''), (''fieldName'', ''users''), (''argName'', ''limit''),
                 (''argType'', ''Int!'')]\<rparr>]"
  by (simp add: usersSchema_def fixture_defs diff_defs refEq_refl)

text \<open>
  C6, amended: for every field present in both versions of an object type (an object type
  in both schemas), adding an argument whose type is NonNull yields a BREAKING change,
  whether or not the argument has a default value; adding an argument whose type is not
  NonNull yields a NON_BREAKING (safe) change; removing an argument yields a BREAKING
  change. Each change is at path \<open>Type.field(arg:)\<close>. The argument that the diff looks
  at under a name is the one that \<open>argMap\<close> holds for it.
\<close>

theorem C6_argument_changes:
  assumes "Schema old = Some og" and "Schema new = Some ng"
      and "(T, Named KObject p) \<in> set (TypeMap og)"
      and "map_of (TypeMap ng) T = Some (Named KObject q)"
      and "(f, oldField) \<in> set (obj_Fields (objects m p))"
      and "map_of (obj_Fields (objects m q)) f = Some newField"
  shows "\<exists>cs. DiffSchemas m (Some old) (Some new) options = Inr cs
     \<and> (map_of (argMap (fd_Args newField)) n = Some a \<and> n \<notin> arg_Name ` set (fd_Args oldField)
          \<and> (\<exists>u. arg_Type a = NonNull u)
        \<longrightarrow> (\<exists>c \<in> set cs. Type c = ChangeTypeBreaking
                \<and> Path c = T @ ''.'' @ f @ ''('' @ n @ '':)''))
     \<and> (map_of (argMap (fd_Args newField)) n = Some a \<and> n \<notin> arg_Name ` set (fd_Args oldField)
          \<and> (\<nexists>u. arg_Type a = NonNull u)
        \<longrightarrow> (\<exists>c \<in> set cs. Type c = ChangeTypeNonBreaking
                \<and> Path c = T @ ''.'' @ f @ ''('' @ n @ '':)''))
     \<and> (n \<in> arg_Name ` set (fd_Args oldField) \<and> n \<notin> arg_Name ` set (fd_Args newField)
        \<longrightarrow> (\<exists>c \<in> set cs. Type c = ChangeTypeBreaking
                \<and> Path c = T @ ''.'' @ f @ ''('' @ n @ '':)''))"
proof -
  let ?opts = "optionsOrDefault options"
  let ?args = "compareFieldArguments m T f (fd_Args oldField) (fd_Args newField) ?opts"
  let ?cs = "sort_Slice (compareTypes m og ng ?opts) changeLess"
  have sub: "set ?args \<subseteq> set ?cs"
    unfolding set_sort_Slice by (rule object_field_subset [OF assms(3-6)])
  have req: "isRequiredType t \<longleftrightarrow> (\<exists>u. t = NonNull u)" for t
    by (cases t) simp_all
  have p: "argPath T f n = T @ ''.'' @ f @ ''('' @ n @ '':)''"
    by (simp add: argPath_def)
  have added: "\<exists>c \<in> set ?cs. Type c = (if isRequiredType (arg_Type a) then ChangeTypeBreaking
                     else ChangeTypeNonBreaking) \<and> Path c = argPath T f n"
    if "map_of (argMap (fd_Args newField)) n = Some a" "n \<notin> arg_Name ` set (fd_Args oldField)"
    using argument_added_mem [OF that, of m T f ?opts] sub by blast
  have removed: "\<exists>c \<in> set ?cs. Type c = ChangeTypeBreaking \<and> Path c = argPath T f n"
    if "n \<in> arg_Name ` set (fd_Args oldField)" "n \<notin> arg_Name ` set (fd_Args newField)"
    using argument_removed_mem [OF that, of m T f ?opts] sub by blast
  have "DiffSchemas m (Some old) (Some new) options = Inr ?cs"
    by (rule DiffSchemas_graphs [OF assms(1,2)])
  moreover have "map_of (argMap (fd_Args newField)) n = Some a \<and> n \<notin> arg_Name ` set (fd_Args oldField)
          \<and> (\<exists>u. arg_Type a = NonNull u)
        \<longrightarrow> (\<exists>c \<in> set ?cs. Type c = ChangeTypeBreaking \<and> Path c = argPath T f n)"
    using added req [of "arg_Type a"] by auto
  moreover have "map_of (argMap (fd_Args newField)) n = Some a \<and> n \<notin> arg_Name ` set (fd_Args oldField)
          \<and> (\<nexists>u. arg_Type a = NonNull u)
        \<longrightarrow> (\<exists>c \<in> set ?cs. Type c = ChangeTypeNonBreaking \<and> Path c = argPath T f n)"
    using added req [of "arg_Type a"] by auto
  moreover have "n \<in> arg_Name ` set (fd_Args oldField) \<and> n \<notin> arg_Name ` set (fd_Args newField)
        \<longrightarrow> (\<exists>c \<in> set ?cs. Type c = ChangeTypeBreaking \<and> Path c = argPath T f n)"
    using removed by blast
  ultimately show ?thesis unfolding p by blast
qed

theorem C6_argument_changes_witness:
  "(\<exists>cs. DiffSchemas exampleMemory (Some (loaded (usersSchema 5))) (Some (loaded (usersSchema 6)))
            None = Inr cs
        \<and> (\<exists>c \<in> set cs. Type c = ChangeTypeBreaking \<and> Path c = ''Query.users(limit:)''))
   \<and> (\<exists>cs. DiffSchemas exampleMemory (Some (loaded (usersSchema 5))) (Some (loaded (usersSchema 7)))
            None = Inr cs
        \<and> (\<exists>c \<in> set cs. Type c = ChangeTypeNonBreaking \<and> Path c = ''Query.users(limit:)''))
   \<and> (\<exists>cs. DiffSchemas exampleMemory (Some (loaded (usersSchema 7))) (Some (loaded (usersSchema 5)))
            None = Inr cs
        \<and> (\<exists>c \<in> set cs. Type c = ChangeTypeBreaking \<and> Path c = ''Query.users(limit:)''))"
proof -
  let ?fd = "\<lambda>as. snd (field ''users'' (List (Named KObject 8)) as)"
  let ?req = "limitArg (NonNull intT) (Some ''10'')"
  let ?opt = "limitArg intT None"
  have a: "\<exists>cs. DiffSchemas exampleMemory (Some (loaded (usersSchema 5)))
            (Some (loaded (usersSchema 6))) None = Inr cs
        \<and> (\<exists>c \<in> set cs. Type c = ChangeTypeBreaking \<and> Path c = ''Query.users(limit:)'')"
    using C6_argument_changes [where m = exampleMemory
        and old = "loaded (usersSchema 5)" and og = "usersSchema 5"
        and new = "loaded (usersSchema 6)" and ng = "usersSchema 6"
        and T = "''Query''" and p = 5 and q = 6 and f = "''users''"
        and oldField = "?fd []" and newField = "?fd [?req]" and options = None
        and n = "''limit''" and a = ?req]
    by (simp add: usersSchema_def fixture_defs argMap_def)
  have b: "\<exists>cs. DiffSchemas exampleMemory (Some (loaded (usersSchema 5)))
            (Some (loaded (usersSchema 7))) None = Inr cs
        \<and> (\<exists>c \<in> set cs. Type c = ChangeTypeNonBreaking \<and> Path c = ''Query.users(limit:)'')"
    using C6_argument_changes [where m = exampleMemory
        and old = "loaded (usersSchema 5)" and og = "usersSchema 5"
        and new = "loaded (usersSchema 7)" and ng = "usersSchema 7"
        and T = "''Query''" and p = 5 and q = 7 and f = "''users''"
        and oldField = "?fd []" and newField = "?fd [?opt]" and options = None
        and n = "''limit''" and a = ?opt]
    by (simp add: usersSchema_def fixture_defs argMap_def)
  have c: "\<exists>cs. DiffSchemas exampleMemory (Some (loaded (usersSchema 7)))
            (Some (loaded (usersSchema 5))) None = Inr cs
        \<and> (\<exists>c \<in> set cs. Type c = ChangeTypeBreaking \<and> Path c = ''Query.users(limit:)'')"
    using C6_argument_changes [where m = exampleMemory
        and old = "loaded (usersSchema 7)" and og = "usersSchema 7"
        and new = "loaded (usersSchema 5)" and ng = "usersSchema 5"
        and T = "''Query''" and p = 7 and q = 5 and f = "''users''"
        and oldField = "?fd [?opt]" and newField = "?fd []" and options = None
        and n = "''limit''" and a = ?opt]
    by (simp add: usersSchema_def fixture_defs argMap_def)
  from a b c show ?thesis by blast
qed

subsection \<open>C7: nullability of a field\<close>

text \<open>
  What \<open>reflect.DeepEqual\<close> does behind a pointer shows when another field refers to the
  type that changes. Here both schemas have \<open>type Query { t: T }\<close>, each built with the
  \<open>T\<close> of its own schema, and \<open>T.a\<close> goes from \<open>String\<close> to \<open>String!\<close>. The two \<open>T\<close>
  are different values, so \<open>Query.t\<close> is reported too, as changed "from T to T": the two
  \<open>Query\<close> types differ in what their field points to, and the schemas in more than the
  nullability of \<open>T.a\<close>.
\<close>

lemma deepEqualTo_depth:
  "deepEqualTo m (depth m) k a b =
     (\<not> holdsFunc m k a \<and> \<not> holdsFunc m k b
      \<and> valueEq m (deepEqualTo m (6 * allocated m * allocated m)) k a b)"
  by (simp add: depth_def)

lemma referring_field_reported_too:
  "DiffSchemas exampleMemory (Some (loaded referringOld)) (Some (loaded referringNew)) None =
   Inr [\<lparr>Type = ChangeTypeBreaking,
         Message = ''Field '' @ CHR 0x27 # ''Query.t'' @ CHR 0x27 #
                   '' changed type from T to T'',
         Path = ''Query.t'', Criticality = ''HIGH'',
         Meta = [(''typeName'', ''Query''), (''fieldName'', ''t''),
                 (''oldType'', ''T''), (''newType'', ''T'')]\<rparr>,
        \<lparr>Type = ChangeTypeBreaking,
         Message = ''Field '' @ CHR 0x27 # ''T.a'' @ CHR 0x27 #
                   '' changed type from String to String!'',
         Path = ''T.a'', Criticality = ''HIGH'',
         Meta = [(''typeName'', ''T''), (''fieldName'', ''a''),
                 (''oldType'', ''String''), (''newType'', ''String!'')]\<rparr>]"
  by (simp add: referringOld_def referringNew_def fixture_defs diff_defs deepEqualTo_depth
        mapEq_def fieldEq_def upt_rec)




subsection \<open>C8: reflexivity\<close>

text \<open>
  C8: comparing a schema with itself yields the empty list of changes, for the default
  options and for any other. A valid schema is one whose maps have distinct keys.
\<close>

theorem C8_reflexivity:
  assumes "Schema s = Some g" and "uniqueKeys m g"
  shows "DiffSchemas m (Some s) (Some s) options = Inr []"
  using assms by (simp add: DiffSchemas_graphs compareTypes_refl sort_Slice_Nil)

theorem C8_reflexivity_witness:
  "uniqueKeys exampleMemory userOld
   \<and> DiffSchemas exampleMemory (Some (loaded userOld)) (Some (loaded userOld)) None = Inr []"
  using C8_reflexivity [of "loaded userOld" userOld exampleMemory None]
  by (simp add: userOld_def fixture_defs uniqueKeys_def)

subsection \<open>C9: symmetry of removed and added types\<close>

text \<open>
  C9: for all schemas \<open>A\<close> and \<open>B\<close> and every type name \<open>T\<close>, the diff of \<open>A\<close> against
  \<open>B\<close> reports \<open>T\<close> as removed (a BREAKING change at path \<open>T\<close> with the message
  "Type 'T' was removed") if and only if the diff of \<open>B\<close> against \<open>A\<close> reports \<open>T\<close>
  as added (a NON_BREAKING change at path \<open>T\<close> with the message "Type 'T' was added").
\<close>

theorem C9_existence_symmetry:
  assumes "Schema a = Some ga" and "Schema b = Some gb"
  shows "\<exists>ab ba. DiffSchemas m (Some a) (Some b) options = Inr ab
           \<and> DiffSchemas m (Some b) (Some a) options' = Inr ba
           \<and> ((\<exists>c \<in> set ab. Type c = ChangeTypeBreaking \<and> Path c = T \<and>
                   Message c = ''Type '' @ CHR 0x27 # T @ CHR 0x27 # '' was removed'')
              \<longleftrightarrow>
               (\<exists>c \<in> set ba. Type c = ChangeTypeNonBreaking \<and> Path c = T \<and>
                   Message c = ''Type '' @ CHR 0x27 # T @ CHR 0x27 # '' was added''))"
proof -
  let ?ab = "sort_Slice (compareTypes m ga gb (optionsOrDefault options)) changeLess"
  let ?ba = "sort_Slice (compareTypes m gb ga (optionsOrDefault options')) changeLess"
  have "(\<exists>c \<in> set ?ab. Type c = ChangeTypeBreaking \<and> Path c = T \<and>
             Message c = ''Type '' @ CHR 0x27 # T @ CHR 0x27 # '' was removed'')
        \<longleftrightarrow>
        (\<exists>c \<in> set ?ba. Type c = ChangeTypeNonBreaking \<and> Path c = T \<and>
             Message c = ''Type '' @ CHR 0x27 # T @ CHR 0x27 # '' was added'')"
    unfolding set_sort_Slice reports_removed_iff reports_added_iff ..
  with DiffSchemas_graphs [OF assms(1) assms(2), of m options]
       DiffSchemas_graphs [OF assms(2) assms(1), of m options']
  show ?thesis by blast
qed

theorem C9_existence_symmetry_witness:
  "\<exists>ab ba. DiffSchemas exampleMemory (Some (loaded (usersSchema 5))) (Some (loaded rootOld)) None
              = Inr ab
     \<and> DiffSchemas exampleMemory (Some (loaded rootOld)) (Some (loaded (usersSchema 5))) None
              = Inr ba
     \<and> ((\<exists>c \<in> set ab. Type c = ChangeTypeBreaking \<and> Path c = ''User'' \<and>
             Message c = ''Type '' @ CHR 0x27 # ''User'' @ CHR 0x27 # '' was removed'')
        \<longleftrightarrow>
         (\<exists>c \<in> set ba. Type c = ChangeTypeNonBreaking \<and> Path c = ''User'' \<and>
             Message c = ''Type '' @ CHR 0x27 # ''User'' @ CHR 0x27 # '' was added''))"
  using C9_existence_symmetry [of "loaded (usersSchema 5)" "usersSchema 5" "loaded rootOld" rootOld
                     exampleMemory None None "''User''"]
  by (simp add: loaded_def)

subsection \<open>C10: nil arguments\<close>

text \<open>
  C10: \<open>DiffSchemas\<close> returns an error if and only if one of the two schema arguments is
  nil, and the error then reads "both schemas must be provided"; nil options are not an
  error and behave as the options with every flag false.
\<close>

theorem C10_nil_schema_error:
  "((\<exists>e. DiffSchemas m oldSchema newSchema options = Inl (Error e))
      \<longleftrightarrow> (oldSchema = None \<or> newSchema = None))
   \<and> (oldSchema = None \<or> newSchema = None \<longrightarrow>
        DiffSchemas m oldSchema newSchema options = Inl (Error ''both schemas must be provided''))
   \<and> DiffSchemas m oldSchema newSchema None =
       DiffSchemas m oldSchema newSchema
         (Some \<lparr>IgnoreDescriptions = False, IgnoreDirectives = False, CustomRules = []\<rparr>)"
  by (auto simp: DiffSchemas_def Let_def split: option.splits)

theorem C10_nil_schema_error_witness:
  "DiffSchemas exampleMemory None (Some (loaded userOld)) None
     = Inl (Error ''both schemas must be provided'')
   \<and> DiffSchemas exampleMemory (Some (loaded userOld)) None None
     = Inl (Error ''both schemas must be provided'')
   \<and> (\<nexists>e. DiffSchemas exampleMemory (Some (loaded userOld)) (Some (loaded userNew)) None
            = Inl (Error e))"
  using C10_nil_schema_error [of exampleMemory None "Some (loaded userOld)" None,
          THEN conjunct2, THEN conjunct1]
        C10_nil_schema_error [of exampleMemory "Some (loaded userOld)" None None,
          THEN conjunct2, THEN conjunct1]
        C10_nil_schema_error [of exampleMemory "Some (loaded userOld)" "Some (loaded userNew)" None,
          THEN conjunct1]
  by simp

end
